theory Spec2Isabelle
  imports Main "HOL-Library.Sublist"
begin

section \<open>The environment resolver of lab-env-utils\<close>

text \<open>
  The class \<open>PartialEnv\<close> reads variables of \<open>process.env\<close>, substitutes defaults,
  checks an allowed set (strings) or bounds (numbers), logs through a winston logger
  and throws \<open>Error\<close> objects. Two versions of the class are in the repository:
  \<open>src/lib/envUtils.ts\<close> (with the \<open>...OrNull\<close> variants) and an earlier one,
  \<open>src/unnamed/part_000\<close>, whose functions carry the suffix \<open>_part000\<close> here.

  The embedding is a writer-style one: a resolver takes the environment and returns the
  log entries it emitted, in order, together with either the thrown error or the
  returned value.
\<close>

subsection \<open>Values of the host language\<close>

text \<open>
  A JavaScript Number (an IEEE 754 double) as the resolvers meet it: \<open>NaN\<close>, the two
  infinities, and the integer-valued doubles, where \<open>Num i\<close> is the double whose value
  is the integer \<open>i\<close>. Not every integer is the value of a double: \<open>toNumber\<close> below
  rounds, and \<open>parseInt\<close> only returns integers that are. Negative zero is identified
  with zero: the comparisons and the template literals of the source do not tell them
  apart.
\<close>

datatype number = NaN | Num int | PosInfinity | NegInfinity

text \<open>An optional property of type \<open>T | null\<close>: left out, \<open>null\<close>, or a value.\<close>

datatype 'a optional = Undefined | Null | Val 'a

text \<open>\<open>a < b\<close> and \<open>a > b\<close> on Numbers: false as soon as one side is \<open>NaN\<close>.\<close>

fun js_lt :: "number \<Rightarrow> number \<Rightarrow> bool" where
  "js_lt (Num a) (Num b) = (a < b)"
| "js_lt (Num a) PosInfinity = True"
| "js_lt NegInfinity (Num b) = True"
| "js_lt NegInfinity PosInfinity = True"
| "js_lt _ _ = False"

fun js_gt :: "number \<Rightarrow> number \<Rightarrow> bool" where
  "js_gt (Num a) (Num b) = (a > b)"
| "js_gt PosInfinity (Num b) = True"
| "js_gt (Num a) NegInfinity = True"
| "js_gt PosInfinity NegInfinity = True"
| "js_gt _ _ = False"

text \<open>\<open>Number.isNaN(value)\<close>.\<close>

fun isNaN :: "number \<Rightarrow> bool" where
  "isNaN NaN = True"
| "isNaN _ = False"

text \<open>\<open>value == null\<close> for a Number: never true, also for \<open>NaN\<close>.\<close>

definition number_is_null :: "number \<Rightarrow> bool" where
  "number_is_null value = False"

subsection \<open>Template literals\<close>

text \<open>
  \<open>`${n}`\<close> for a Number: \<open>NaN\<close>, \<open>Infinity\<close> and \<open>-Infinity\<close> print as these
  words, an integer in decimal with a leading minus sign when negative. (JavaScript
  prints the shortest digits that read back as the same double; for an integer of
  magnitude up to \<open>2^53\<close> these are its decimal digits.)
\<close>

definition digit_char :: "nat \<Rightarrow> char" where
  "digit_char d = ''0123456789'' ! d"

fun show_nat :: "nat \<Rightarrow> string" where
  "show_nat n = (if n < 10 then [digit_char n] else show_nat (n div 10) @ [digit_char (n mod 10)])"

declare show_nat.simps [simp del]

definition show_number :: "number \<Rightarrow> string" where
  "show_number v =
     (case v of
        NaN \<Rightarrow> ''NaN''
      | PosInfinity \<Rightarrow> ''Infinity''
      | NegInfinity \<Rightarrow> ''-Infinity''
      | Num i \<Rightarrow> (if i < 0 then ''-'' @ show_nat (nat (- i)) else show_nat (nat i)))"

text \<open>\<open>`${options.defaultValue}`\<close>, with the printer of the value's type.\<close>

fun show_optional :: "('a \<Rightarrow> string) \<Rightarrow> 'a optional \<Rightarrow> string" where
  "show_optional sh Undefined = ''undefined''"
| "show_optional sh Null = ''null''"
| "show_optional sh (Val v) = sh v"

text \<open>\<open>`${envVarName}`\<close>, where \<open>None\<close> is a \<open>null\<close> name.\<close>

fun show_name :: "string option \<Rightarrow> string" where
  "show_name None = ''null''"
| "show_name (Some name) = name"

subsection \<open>From an integer to a Number\<close>

text \<open>
  The double for the integer \<open>sign * n\<close>: the nearest value with a significand of 53
  bits, a tie going to the even significand, and an infinity when that value reaches
  \<open>2^1024\<close>. \<open>bitLength n\<close> is the number of binary digits of \<open>n\<close>, so only the
  lowest \<open>bitLength n - 53\<close> bits are rounded away (none below \<open>2^53\<close>).
\<close>

fun bitLength :: "nat \<Rightarrow> nat" where
  "bitLength n = (if n = 0 then 0 else Suc (bitLength (n div 2)))"

declare bitLength.simps [simp del]

definition roundToEven :: "nat \<Rightarrow> nat \<Rightarrow> nat" where
  "roundToEven e n =
     (let q = n div 2 ^ e; r = n mod 2 ^ e
      in if 2 ^ e < 2 * r \<or> (2 * r = 2 ^ e \<and> odd q) then (q + 1) * 2 ^ e else q * 2 ^ e)"

definition toNumber :: "int \<Rightarrow> nat \<Rightarrow> number" where
  "toNumber sign n =
     (let m = roundToEven (bitLength n - 53) n
      in if 2 ^ 1024 \<le> m then (if sign < 0 then NegInfinity else PosInfinity)
         else Num (sign * int m))"

subsection \<open>The built-in \<open>parseInt\<close> with no radix argument\<close>

text \<open>
  Strings are lists of code units below 256. \<open>parseInt(s)\<close> skips leading white space
  (in that range: TAB, LF, VT, FF, CR, SP, NBSP), reads an optional sign, takes radix 16
  when the rest starts with \<open>0x\<close> or \<open>0X\<close> (which it removes) and radix 10 otherwise,
  and reads the longest run of digits of that radix. With no digit the result is
  \<open>NaN\<close>; otherwise it is the Number for the integer the digits denote. (ECMAScript
  lets an implementation approximate a decimal integer after its 20th significant digit;
  V8, the engine of Node.js, rounds the exact integer, as \<open>toNumber\<close> does.)
\<close>

definition isStrWhiteSpaceChar :: "char \<Rightarrow> bool" where
  "isStrWhiteSpaceChar c = ((of_char c :: nat) \<in> {9, 10, 11, 12, 13, 32, 160})"

definition trimStart :: "string \<Rightarrow> string" where
  "trimStart s = dropWhile isStrWhiteSpaceChar s"

definition signOf :: "string \<Rightarrow> int" where
  "signOf S = (if take 1 S = ''-'' then - 1 else 1)"

definition stripSign :: "string \<Rightarrow> string" where
  "stripSign S = (if take 1 S = ''+'' \<or> take 1 S = ''-'' then drop 1 S else S)"

definition hasHexPrefix :: "string \<Rightarrow> bool" where
  "hasHexPrefix S = (take 2 S = ''0x'' \<or> take 2 S = ''0X'')"

definition digitValue :: "char \<Rightarrow> nat option" where
  "digitValue c =
     (let n = (of_char c :: nat) in
      if 48 \<le> n \<and> n \<le> 57 then Some (n - 48)
      else if 97 \<le> n \<and> n \<le> 122 then Some (n - 87)
      else if 65 \<le> n \<and> n \<le> 90 then Some (n - 55)
      else None)"

definition isRadixDigit :: "nat \<Rightarrow> char \<Rightarrow> bool" where
  "isRadixDigit R c = (case digitValue c of Some d \<Rightarrow> d < R | None \<Rightarrow> False)"

definition mathInt :: "nat \<Rightarrow> string \<Rightarrow> nat" where
  "mathInt R Z = foldl (\<lambda>acc c. acc * R + (case digitValue c of Some d \<Rightarrow> d | None \<Rightarrow> 0)) 0 Z"

definition parseDigits :: "nat \<Rightarrow> int \<Rightarrow> string \<Rightarrow> number" where
  "parseDigits R sign S =
     (let Z = takeWhile (isRadixDigit R) S
      in if Z = [] then NaN else toNumber sign (mathInt R Z))"

definition parseInt :: "string \<Rightarrow> number" where
  "parseInt inputString =
     (let S = trimStart inputString;
          sign = signOf S;
          S = stripSign S
      in if hasHexPrefix S then parseDigits 16 sign (drop 2 S)
         else parseDigits 10 sign S)"

text \<open>
  The reading of the specification: a base-10 integer, the longest leading numeric
  substring (white space and a sign in front, then decimal digits), and nothing when
  there is no such substring.
\<close>

definition spec_parseBase10 :: "string \<Rightarrow> number" where
  "spec_parseBase10 rawValue =
     (let S = trimStart rawValue
      in parseDigits 10 (signOf S) (stripSign S))"

subsection \<open>Environment, options, log and errors\<close>

text \<open>
  \<open>env name\<close> is the value of \<open>process.env[name]\<close>: a string, or \<open>None\<close> when the
  lookup gives \<open>undefined\<close>. A variable set to the empty string is present.
\<close>

type_synonym env = "string \<rightharpoonup> string"

text \<open>The options of the string resolvers: \<open>{ defaultValue?: T | null, allowed?: Set<T> }\<close>.\<close>

record string_options =
  defaultValue :: "string optional"
  allowed :: "string set option"

text \<open>
  The options of the numeric resolvers:
  \<open>{ defaultValue?: number | null, max?: number, min?: number }\<close>.
  \<open>None\<close> for a bound is a bound that \<open>!= null\<close> rejects.
\<close>

record number_options =
  defaultValue_num :: "number optional"
  max_num :: "number option"
  min_num :: "number option"

text \<open>\<open>this.logger.warn(msg)\<close> and \<open>this.logger.error(msg)\<close>.\<close>

datatype level = LogWarn | LogError

type_synonym log_entry = "level \<times> string"

text \<open>\<open>new Error(message)\<close>.\<close>

datatype error = Error string

text \<open>What a call does: the log entries it emitted, then the throw or the return.\<close>

type_synonym 'a outcome = "log_entry list \<times> (error + 'a)"

text \<open>The messages, one definition for each template literal of the source.\<close>

definition envVarName_is_null :: string where
  "envVarName_is_null = ''envVarName is null''"

definition must_be_defined :: "string \<Rightarrow> string" where
  "must_be_defined envVarName = envVarName @ '' must be defined''"

definition using_default :: "string \<Rightarrow> string \<Rightarrow> string" where
  "using_default envVarName dflt = envVarName @ '' not defined, using default '' @ dflt"

definition unsupported_value :: "string \<Rightarrow> string" where
  "unsupported_value valueStr = ''unsupported NODE_ENV value '' @ valueStr"

definition not_a_number :: "string \<Rightarrow> string \<Rightarrow> string" where
  "not_a_number envVarName valueStr = envVarName @ '' value '' @ valueStr @ '' is not a number''"

definition must_be_at_least :: "string \<Rightarrow> string \<Rightarrow> number \<Rightarrow> string" where
  "must_be_at_least envVarName valueStr m =
     envVarName @ '' value '' @ valueStr @ '' must be at least '' @ show_number m"

definition must_be_no_greater :: "string \<Rightarrow> string \<Rightarrow> number \<Rightarrow> string" where
  "must_be_no_greater envVarName valueStr m =
     envVarName @ '' value '' @ valueStr @ '' must be no greater than '' @ show_number m"

text \<open>
  The default an optional options object carries: \<open>options != null\<close> and then
  \<open>options.defaultValue\<close>, which the source tests with \<open>!== undefined\<close>
  (\<open>src/lib/envUtils.ts\<close>) or with \<open>!= null\<close> (\<open>src/unnamed/part_000\<close>).
\<close>

definition string_default :: "string_options option \<Rightarrow> string optional" where
  "string_default options =
     (case options of None \<Rightarrow> Undefined | Some opts \<Rightarrow> defaultValue opts)"

definition number_default :: "number_options option \<Rightarrow> number optional" where
  "number_default options =
     (case options of None \<Rightarrow> Undefined | Some opts \<Rightarrow> defaultValue_num opts)"

text \<open>
  \<open>options.min != null && value < options.min\<close>: the bound when the check fires.
  Likewise for \<open>max\<close>.
\<close>

definition min_violated :: "number_options \<Rightarrow> number \<Rightarrow> number option" where
  "min_violated options value =
     (case min_num options of
        None \<Rightarrow> None
      | Some m \<Rightarrow> if js_lt value m then Some m else None)"

definition max_violated :: "number_options \<Rightarrow> number \<Rightarrow> number option" where
  "max_violated options value =
     (case max_num options of
        None \<Rightarrow> None
      | Some m \<Rightarrow> if js_gt value m then Some m else None)"

subsection \<open>The resolvers of \<open>src/lib/envUtils.ts\<close>\<close>

definition parseEnvAsStringOrNull ::
    "env \<Rightarrow> string option \<Rightarrow> string_options option \<Rightarrow> string option outcome" where
  "parseEnvAsStringOrNull env envVarName options =
     (case envVarName of
        None \<Rightarrow> ([], Inl (Error envVarName_is_null))
      | Some name \<Rightarrow>
          (case env name of
             None \<Rightarrow>
               (case string_default options of
                  Undefined \<Rightarrow> ([], Inl (Error (must_be_defined name)))
                | Null \<Rightarrow>
                    ([(LogWarn, using_default name (show_optional id Null))], Inr None)
                | Val d \<Rightarrow>
                    ([(LogWarn, using_default name (show_optional id (Val d)))],
                     Inr (Some d)))
           | Some valueStr \<Rightarrow>
               (case Option.bind options allowed of
                  None \<Rightarrow> ([], Inr (Some valueStr))
                | Some A \<Rightarrow>
                    if valueStr \<in> A then ([], Inr (Some valueStr))
                    else ([(LogError, unsupported_value valueStr)],
                          Inl (Error (unsupported_value valueStr))))))"

definition parseEnvAsString ::
    "env \<Rightarrow> string option \<Rightarrow> string_options option \<Rightarrow> string outcome" where
  "parseEnvAsString env envVarName options =
     (case parseEnvAsStringOrNull env envVarName options of
        (lg, Inl e) \<Rightarrow> (lg, Inl e)
      | (lg, Inr None) \<Rightarrow> (lg, Inl (Error (must_be_defined (show_name envVarName))))
      | (lg, Inr (Some parsed)) \<Rightarrow> (lg, Inr parsed))"

definition parseEnvAsNumberOrNull ::
    "env \<Rightarrow> string option \<Rightarrow> number_options option \<Rightarrow> number option outcome" where
  "parseEnvAsNumberOrNull env envVarName options =
     (case envVarName of
        None \<Rightarrow> ([], Inl (Error envVarName_is_null))
      | Some name \<Rightarrow>
          (case env name of
             None \<Rightarrow>
               (case number_default options of
                  Undefined \<Rightarrow> ([], Inl (Error (must_be_defined name)))
                | Null \<Rightarrow>
                    ([(LogWarn, using_default name (show_optional show_number Null))],
                     Inr None)
                | Val d \<Rightarrow>
                    ([(LogWarn, using_default name (show_optional show_number (Val d)))],
                     Inr (Some d)))
           | Some valueStr \<Rightarrow>
               (let value = parseInt valueStr in
                if number_is_null value \<or> isNaN value
                then ([], Inl (Error (not_a_number name valueStr)))
                else
                  (case Option.bind options (\<lambda>opts. min_violated opts value) of
                     Some m \<Rightarrow> ([], Inl (Error (must_be_at_least name valueStr m)))
                   | None \<Rightarrow>
                       (case Option.bind options (\<lambda>opts. max_violated opts value) of
                          Some m \<Rightarrow> ([], Inl (Error (must_be_no_greater name valueStr m)))
                        | None \<Rightarrow> ([], Inr (Some value)))))))"

definition parseEnvAsNumber ::
    "env \<Rightarrow> string option \<Rightarrow> number_options option \<Rightarrow> number outcome" where
  "parseEnvAsNumber env envVarName options =
     (case parseEnvAsNumberOrNull env envVarName options of
        (lg, Inl e) \<Rightarrow> (lg, Inl e)
      | (lg, Inr None) \<Rightarrow> (lg, Inl (Error (must_be_defined (show_name envVarName))))
      | (lg, Inr (Some parsed)) \<Rightarrow> (lg, Inr parsed))"

subsection \<open>The resolvers of \<open>src/unnamed/part_000\<close>\<close>

text \<open>
  Here a default counts only when it is \<open>!= null\<close>, the numeric resolver takes its
  options as a required argument, and its only test after \<open>parseInt\<close> is
  \<open>value == null\<close>.
\<close>

definition parseEnvAsString_part000 ::
    "env \<Rightarrow> string option \<Rightarrow> string_options option \<Rightarrow> string outcome" where
  "parseEnvAsString_part000 env envVarName options =
     (case envVarName of
        None \<Rightarrow> ([], Inl (Error envVarName_is_null))
      | Some name \<Rightarrow>
          (case env name of
             None \<Rightarrow>
               (case string_default options of
                  Val d \<Rightarrow>
                    ([(LogWarn, using_default name (show_optional id (Val d)))], Inr d)
                | _ \<Rightarrow> ([], Inl (Error (must_be_defined name))))
           | Some valueStr \<Rightarrow>
               (case Option.bind options allowed of
                  None \<Rightarrow> ([], Inr valueStr)
                | Some A \<Rightarrow>
                    if valueStr \<in> A then ([], Inr valueStr)
                    else ([(LogError, unsupported_value valueStr)],
                          Inl (Error (unsupported_value valueStr))))))"

definition handleDefault :: "string \<Rightarrow> number_options \<Rightarrow> number outcome" where
  "handleDefault name options =
     (case defaultValue_num options of
        Val d \<Rightarrow> ([(LogWarn, using_default name (show_optional show_number (Val d)))], Inr d)
      | _ \<Rightarrow> ([], Inl (Error (must_be_defined name))))"

definition parseEnvAsNumber_part000 ::
    "env \<Rightarrow> string option \<Rightarrow> number_options \<Rightarrow> number outcome" where
  "parseEnvAsNumber_part000 env envVarName options =
     (case envVarName of
        None \<Rightarrow> ([], Inl (Error envVarName_is_null))
      | Some name \<Rightarrow>
          (case env name of
             None \<Rightarrow> handleDefault name options
           | Some valueStr \<Rightarrow>
               (let value = parseInt valueStr in
                if number_is_null value
                then ([], Inl (Error (not_a_number name valueStr)))
                else
                  (case min_violated options value of
                     Some m \<Rightarrow> ([], Inl (Error (must_be_at_least name valueStr m)))
                   | None \<Rightarrow>
                       (case max_violated options value of
                          Some m \<Rightarrow> ([], Inl (Error (must_be_no_greater name valueStr m)))
                        | None \<Rightarrow> ([], Inr value))))))"

subsection \<open>Digit strings\<close>

text \<open>
  The character of a hexadecimal digit \<open>d < 16\<close>, in upper or lower case; for
  \<open>d < 10\<close> it is \<open>digit_char d\<close> in both cases.
\<close>

definition hex_char :: "nat \<times> bool \<Rightarrow> char" where
  "hex_char du =
     (if snd du then ''0123456789ABCDEF'' ! fst du else ''0123456789abcdef'' ! fst du)"

section \<open>Rounding to a Number\<close>

text \<open>
  Below \<open>2^53\<close> nothing is rounded; from \<open>2^1024\<close> on the result is an infinity;
  in between, two ties: \<open>2^53 + 1\<close> goes down and \<open>2^53 + 3\<close> goes up, each to the
  even significand.
\<close>

lemma bitLength_zero: "n = 0 \<Longrightarrow> bitLength n = 0"
  by (simp add: bitLength.simps)

lemma bitLength_pos: "0 < n \<Longrightarrow> bitLength n = Suc (bitLength (n div 2))"
  by (subst bitLength.simps) simp

lemma bitLength_le: "n < 2 ^ k \<Longrightarrow> bitLength n \<le> k"
proof (induction n arbitrary: k rule: bitLength.induct)
  case (1 n)
  show ?case
  proof (cases "n = 0")
    case True
    then show ?thesis by (simp add: bitLength_zero)
  next
    case False
    then obtain j where k: "k = Suc j"
      using "1.prems" by (cases k) auto
    have "n div 2 < 2 ^ j" using "1.prems" k by auto
    then have "bitLength (n div 2) \<le> j" using "1.IH" False by blast
    then show ?thesis using False k by (simp add: bitLength_pos)
  qed
qed

lemma toNumber_exact: "n < 2 ^ 53 \<Longrightarrow> toNumber sign n = Num (sign * int n)"
proof -
  assume n: "n < 2 ^ 53"
  then have "bitLength n - 53 = 0" using bitLength_le by simp
  moreover have "n < 2 ^ 1024"
  proof -
    have "(2::nat) ^ 53 \<le> 2 ^ 1024" by (rule power_increasing) simp_all
    with n show ?thesis by simp
  qed
  ultimately show ?thesis by (simp add: toNumber_def roundToEven_def)
qed

lemma toNumber_tie_down: "toNumber 1 9007199254740993 = Num 9007199254740992"
  by (simp add: toNumber_def roundToEven_def bitLength_zero bitLength_pos)

lemma toNumber_tie_up: "toNumber 1 9007199254740995 = Num 9007199254740996"
  by (simp add: toNumber_def roundToEven_def bitLength_zero bitLength_pos)

lemma bitLength_upper: "n < 2 ^ bitLength n"
proof (induction n rule: bitLength.induct)
  case (1 n)
  show ?case
  proof (cases "n = 0")
    case True
    then show ?thesis by (simp add: bitLength_zero)
  next
    case False
    then have "n div 2 < 2 ^ bitLength (n div 2)" using "1.IH" by blast
    then have "n < 2 * 2 ^ bitLength (n div 2)" by linarith
    then show ?thesis using False by (simp add: bitLength_pos)
  qed
qed

lemma bitLength_lower: "0 < n \<Longrightarrow> 2 ^ (bitLength n - 1) \<le> n"
proof (induction n rule: bitLength.induct)
  case (1 n)
  show ?case
  proof (cases "n div 2 = 0")
    case True
    then have "n = 1" using "1.prems" by linarith
    then show ?thesis by (simp add: bitLength_pos bitLength_zero)
  next
    case False
    then have pos: "0 < n div 2" by simp
    then have "2 ^ (bitLength (n div 2) - 1) \<le> n div 2" using "1.IH" "1.prems" by simp
    moreover have "bitLength (n div 2) = Suc (bitLength (n div 2) - 1)"
      using pos by (simp add: bitLength_pos)
    ultimately have "2 ^ bitLength (n div 2) \<le> 2 * (n div 2)"
      by (metis power_Suc mult_le_mono2)
    then have "2 ^ bitLength (n div 2) \<le> n" by linarith
    then show ?thesis using "1.prems" by (simp add: bitLength_pos)
  qed
qed

lemma roundToEven_lower: "(n div 2 ^ e) * 2 ^ e \<le> roundToEven e n"
  by (simp add: roundToEven_def Let_def)

lemma roundToEven_overflow:
  assumes "2 ^ k \<le> n" and "53 \<le> k"
  shows "2 ^ k \<le> roundToEven (bitLength n - 53) n"
proof -
  define b where "b = bitLength n"
  have "n < 2 ^ b" unfolding b_def by (rule bitLength_upper)
  with assms(1) have "(2::nat) ^ k < 2 ^ b" by (rule le_less_trans)
  then have b: "k < b" by (rule power_less_imp_less_exp [rotated]) simp
  have npos: "0 < n"
  proof -
    have "(0::nat) < 2 ^ k" by simp
    then show ?thesis using assms(1) by (rule less_le_trans)
  qed
  have low: "2 ^ (b - 1) \<le> n" unfolding b_def using npos by (rule bitLength_lower)
  have split: "b - 1 = 52 + (b - 53)" using b assms(2) by linarith
  have "(2::nat) ^ 52 * 2 ^ (b - 53) \<le> n" using low unfolding split power_add .
  then have "2 ^ 52 \<le> n div 2 ^ (b - 53)"
    by (subst less_eq_div_iff_mult_less_eq) simp_all
  then have "2 ^ 52 * 2 ^ (b - 53) \<le> (n div 2 ^ (b - 53)) * 2 ^ (b - 53)"
    by (rule mult_le_mono1)
  also have "\<dots> \<le> roundToEven (b - 53) n" by (rule roundToEven_lower)
  finally have "2 ^ (b - 1) \<le> roundToEven (b - 53) n" unfolding split power_add .
  moreover have "(2::nat) ^ k \<le> 2 ^ (b - 1)"
  proof (rule power_increasing)
    show "k \<le> b - 1" using b by linarith
    show "(1::nat) \<le> 2" by simp
  qed
  ultimately show ?thesis unfolding b_def by (rule order_trans [rotated])
qed

lemma toNumber_overflow:
  assumes "2 ^ 1024 \<le> n"
  shows "toNumber sign n = (if sign < 0 then NegInfinity else PosInfinity)"
proof -
  have "(2::nat) ^ 1024 \<le> roundToEven (bitLength n - 53) n"
    using assms by (rule roundToEven_overflow) simp
  then show ?thesis unfolding toNumber_def Let_def by (rule if_P)
qed

lemma js_lt_NaN [simp]: "js_lt NaN m = False" "js_lt m NaN = False"
  by (cases m; simp)+

lemma js_gt_NaN [simp]: "js_gt NaN m = False" "js_gt m NaN = False"
  by (cases m; simp)+

section \<open>Evaluation rules\<close>

lemmas parseInt_eval =
  parseInt_def trimStart_def signOf_def stripSign_def hasHexPrefix_def
  parseDigits_def isRadixDigit_def digitValue_def mathInt_def isStrWhiteSpaceChar_def
  toNumber_exact

lemma show_nat_digit: "n < 10 \<Longrightarrow> show_nat n = [digit_char n]"
  by (simp add: show_nat.simps)

lemma show_nat_more:
  "10 \<le> n \<Longrightarrow> show_nat n = show_nat (n div 10) @ [digit_char (n mod 10)]"
  by (subst show_nat.simps) simp

lemmas show_number_eval = show_number_def show_nat_digit show_nat_more digit_char_def

lemmas resolver_defs =
  parseEnvAsStringOrNull_def parseEnvAsString_def parseEnvAsNumberOrNull_def
  parseEnvAsNumber_def parseEnvAsString_part000_def parseEnvAsNumber_part000_def
  handleDefault_def string_default_def number_default_def number_is_null_def

section \<open>What \<open>parseInt\<close> reads\<close>

text \<open>
  \<open>parseInt\<close> on a string given by its parts: white space, a sign, digits (as a list
  of digit values) and a rest that does not go on with a digit. The integer read is the
  positional value of the digits, \<open>horner_sum id 10 (rev ds)\<close> in base 10.
\<close>

lemma digit_cases: "d < 10 \<Longrightarrow> d \<in> {0, 1, 2, 3, 4, 5, 6, 7, 8, 9 :: nat}"
  by auto

lemma of_char_digit_char: "d < 10 \<Longrightarrow> (of_char (digit_char d) :: nat) = 48 + d"
  using digit_cases [of d] by (auto simp: digit_char_def)

lemma digitValue_digit_char: "d < 10 \<Longrightarrow> digitValue (digit_char d) = Some d"
  by (simp add: digitValue_def of_char_digit_char)

lemma decimal_digit_chars: "set ''0123456789'' = digit_char ` {..<10}"
proof -
  have "{..<10::nat} = {0, 1, 2, 3, 4, 5, 6, 7, 8, 9}" by auto
  then show ?thesis by (simp add: digit_char_def)
qed

lemma isRadixDigit_10_iff: "isRadixDigit 10 c \<longleftrightarrow> c \<in> set ''0123456789''"
proof
  assume "isRadixDigit 10 c"
  then obtain d where d: "digitValue c = Some d" "d < 10"
    by (auto simp: isRadixDigit_def split: option.splits)
  then have "(of_char c :: nat) = 48 + d"
    by (auto simp: digitValue_def Let_def split: if_splits)
  then have "(of_char c :: nat) = of_char (digit_char d)"
    using d(2) by (simp add: of_char_digit_char)
  then have "c = digit_char d" by simp
  then show "c \<in> set ''0123456789''"
    unfolding decimal_digit_chars using d(2) by blast
next
  assume "c \<in> set ''0123456789''"
  then obtain d where "d < 10" "c = digit_char d"
    unfolding decimal_digit_chars by blast
  then show "isRadixDigit 10 c"
    by (simp add: isRadixDigit_def digitValue_digit_char)
qed

lemma digit_char_in_digits: "d < 10 \<Longrightarrow> digit_char d \<in> set ''0123456789''"
  unfolding decimal_digit_chars by blast

lemma digit_char_not_space: "d < 10 \<Longrightarrow> \<not> isStrWhiteSpaceChar (digit_char d)"
  by (simp add: isStrWhiteSpaceChar_def of_char_digit_char)

lemma digit_char_is_zero: "d < 10 \<Longrightarrow> digit_char d = CHR ''0'' \<longleftrightarrow> d = 0"
  using digit_cases [of d] by (auto simp: digit_char_def)

lemma mathInt_snoc:
  "mathInt R (Z @ [c]) = mathInt R Z * R + (case digitValue c of Some d \<Rightarrow> d | None \<Rightarrow> 0)"
  by (simp add: mathInt_def)

lemma mathInt_digits:
  "\<forall>d\<in>set ds. d < 10 \<Longrightarrow> mathInt 10 (map digit_char ds) = horner_sum id 10 (rev ds)"
proof (induction ds rule: rev_induct)
  case Nil
  show ?case by (simp add: mathInt_def)
next
  case (snoc d ds)
  then show ?case by (simp add: mathInt_snoc digitValue_digit_char)
qed

lemma takeWhile_digits:
  assumes "\<forall>d\<in>set ds. d < 10" and "rest = [] \<or> hd rest \<notin> set ''0123456789''"
  shows "takeWhile (isRadixDigit 10) (map digit_char ds @ rest) = map digit_char ds"
proof -
  have "takeWhile (isRadixDigit 10) rest = []"
    using assms(2) unfolding takeWhile_eq_Nil_iff isRadixDigit_10_iff .
  moreover have "isRadixDigit 10 c" if "c \<in> set (map digit_char ds)" for c
    using that assms(1) by (auto simp: isRadixDigit_10_iff simp del: set_simps intro: digit_char_in_digits)
  then have "takeWhile (isRadixDigit 10) (map digit_char ds @ rest)
      = map digit_char ds @ takeWhile (isRadixDigit 10) rest"
    by (rule takeWhile_append2)
  ultimately show ?thesis by simp
qed

lemma no_hex_prefix_digits:
  assumes "ds \<noteq> []" and "\<forall>d\<in>set ds. d < 10"
    and "\<not> (ds = [0] \<and> rest \<noteq> [] \<and> hd rest \<in> {CHR ''x'', CHR ''X''})"
  shows "\<not> hasHexPrefix (map digit_char ds @ rest)"
proof (cases ds)
  case Nil
  with assms(1) show ?thesis by simp
next
  case (Cons d0 ds')
  show ?thesis
  proof (cases ds')
    case Nil
    have d0: "d0 < 10" using assms(2) Cons by simp
    show ?thesis
    proof (cases rest)
      case Nil
      with Cons \<open>ds' = []\<close> show ?thesis by (simp add: hasHexPrefix_def)
    next
      case (Cons r rest')
      with assms(3) \<open>ds = d0 # ds'\<close> \<open>ds' = []\<close> d0 show ?thesis
        by (auto simp: hasHexPrefix_def digit_char_is_zero)
    qed
  next
    case (Cons d1 ds'')
    have "d1 < 10" using assms(2) \<open>ds = d0 # ds'\<close> Cons by simp
    then have "(of_char (digit_char d1) :: nat) = 48 + d1" by (rule of_char_digit_char)
    with \<open>d1 < 10\<close> have "digit_char d1 \<noteq> CHR ''x''" "digit_char d1 \<noteq> CHR ''X''" by auto
    with \<open>ds = d0 # ds'\<close> Cons show ?thesis by (simp add: hasHexPrefix_def)
  qed
qed


lemma trimStart_spaces:
  assumes "\<forall>c\<in>set ws. isStrWhiteSpaceChar c" and "S = [] \<or> \<not> isStrWhiteSpaceChar (hd S)"
  shows "trimStart (ws @ S) = S"
proof -
  have "dropWhile isStrWhiteSpaceChar (ws @ S) = dropWhile isStrWhiteSpaceChar S"
    using assms(1) by (intro dropWhile_append2) blast
  also have "\<dots> = S" using assms(2) by (simp add: dropWhile_eq_self_iff)
  finally show ?thesis by (simp add: trimStart_def)
qed

lemma sign_not_space:
  "\<not> isStrWhiteSpaceChar (CHR ''+'')" "\<not> isStrWhiteSpaceChar (CHR ''-'')"
  by (simp_all add: isStrWhiteSpaceChar_def)

lemma digit_char_not_sign:
  assumes "d < 10"
  shows "digit_char d \<noteq> CHR ''+''" and "digit_char d \<noteq> CHR ''-''"
  using of_char_digit_char [OF assms] assms by auto

lemma toNumber_not_NaN: "toNumber sign n \<noteq> NaN"
  by (simp add: toNumber_def Let_def)

lemma parseInt_decimal:
  assumes ws: "\<forall>c\<in>set ws. isStrWhiteSpaceChar c"
    and sg: "sg \<in> {[], ''+'', ''-''}"
    and ds: "ds \<noteq> []" "\<forall>d\<in>set ds. d < 10"
    and rest: "rest = [] \<or> hd rest \<notin> set ''0123456789''"
    and nohex: "\<not> (ds = [0] \<and> rest \<noteq> [] \<and> hd rest \<in> {CHR ''x'', CHR ''X''})"
  shows "parseInt (ws @ sg @ map digit_char ds @ rest)
           = toNumber (if sg = ''-'' then - 1 else 1) (horner_sum id 10 (rev ds))"
proof -
  define D where "D = map digit_char ds @ rest"
  obtain d0 ds' where ds0: "ds = d0 # ds'" using ds(1) by (cases ds) auto
  then have d0: "d0 < 10" using ds(2) by simp
  have hdD: "D \<noteq> []" "hd D = digit_char d0" by (simp_all add: D_def ds0)
  have "sg @ D = [] \<or> \<not> isStrWhiteSpaceChar (hd (sg @ D))"
    using sg hdD d0 by (auto simp: sign_not_space digit_char_not_space)
  then have trim: "trimStart (ws @ sg @ D) = sg @ D"
    using ws by (rule trimStart_spaces [rotated])
  have take1: "take 1 D = [digit_char d0]" by (simp add: D_def ds0)
  have sign: "signOf (sg @ D) = (if sg = ''-'' then - 1 else 1)"
    using sg take1 digit_char_not_sign [OF d0] by (auto simp: signOf_def)
  have strip: "stripSign (sg @ D) = D"
    using sg take1 digit_char_not_sign [OF d0] by (auto simp: stripSign_def)
  have hex: "\<not> hasHexPrefix D"
    unfolding D_def using ds nohex by (rule no_hex_prefix_digits)
  have digits: "takeWhile (isRadixDigit 10) D = map digit_char ds"
    unfolding D_def using ds(2) rest by (rule takeWhile_digits)
  have "parseInt (ws @ sg @ D)
      = toNumber (if sg = ''-'' then - 1 else 1) (mathInt 10 (map digit_char ds))"
    using ds(1) by (simp add: parseInt_def trim sign strip hex parseDigits_def digits)
  then show ?thesis using ds(2) by (simp add: D_def mathInt_digits)
qed

lemma parseInt_no_digit:
  assumes ws: "\<forall>c\<in>set ws. isStrWhiteSpaceChar c"
    and sg: "sg \<in> {[], ''+'', ''-''}"
    and rest: "rest = [] \<or> hd rest \<notin> set ''0123456789''"
    and bare: "sg = [] \<longrightarrow> rest = []
        \<or> (\<not> isStrWhiteSpaceChar (hd rest) \<and> hd rest \<notin> {CHR ''+'', CHR ''-''})"
  shows "parseInt (ws @ sg @ rest) = NaN"
proof -
  have "sg @ rest = [] \<or> \<not> isStrWhiteSpaceChar (hd (sg @ rest))"
    using sg bare by (auto simp: sign_not_space)
  then have trim: "trimStart (ws @ sg @ rest) = sg @ rest"
    using ws by (rule trimStart_spaces [rotated])
  have strip: "stripSign (sg @ rest) = rest"
    using sg bare by (cases rest) (auto simp: stripSign_def)
  have hex: "\<not> hasHexPrefix rest"
    using rest by (cases rest) (auto simp: hasHexPrefix_def)
  have "takeWhile (isRadixDigit 10) rest = []"
    using rest unfolding takeWhile_eq_Nil_iff isRadixDigit_10_iff .
  then show ?thesis by (simp add: parseInt_def trim strip hex parseDigits_def)
qed

lemma letter_cases: "10 \<le> d \<Longrightarrow> d < 16 \<Longrightarrow> d \<in> {10, 11, 12, 13, 14, 15 :: nat}"
  by (simp; arith)

lemma of_char_hex_digit: "d < 10 \<Longrightarrow> (of_char (hex_char (d, up)) :: nat) = 48 + d"
  using digit_cases [of d] by (cases up) (auto simp: hex_char_def)

lemma of_char_hex_lower:
  "10 \<le> d \<Longrightarrow> d < 16 \<Longrightarrow> (of_char (hex_char (d, False)) :: nat) = 87 + d"
  using letter_cases [of d] by (auto simp: hex_char_def)

lemma of_char_hex_upper:
  "10 \<le> d \<Longrightarrow> d < 16 \<Longrightarrow> (of_char (hex_char (d, True)) :: nat) = 55 + d"
  using letter_cases [of d] by (auto simp: hex_char_def)

lemma digitValue_hex_char: "d < 16 \<Longrightarrow> digitValue (hex_char (d, up)) = Some d"
proof (cases "d < 10")
  case True
  then show ?thesis by (simp add: digitValue_def of_char_hex_digit)
next
  case False
  assume "d < 16"
  with False show ?thesis
    by (cases up) (simp_all add: digitValue_def of_char_hex_lower of_char_hex_upper)
qed

lemma hex_char_in_digits: "d < 16 \<Longrightarrow> hex_char (d, up) \<in> set ''0123456789abcdefABCDEF''"
proof (cases "d < 10")
  case True
  then show ?thesis using digit_cases [of d] by (cases up) (auto simp: hex_char_def)
next
  case False
  assume "d < 16"
  with False show ?thesis using letter_cases [of d] by (cases up) (auto simp: hex_char_def)
qed

lemma isRadixDigit_16_iff: "isRadixDigit 16 c \<longleftrightarrow> c \<in> set ''0123456789abcdefABCDEF''"
proof
  assume "isRadixDigit 16 c"
  then obtain d where d: "digitValue c = Some d" "d < 16"
    by (auto simp: isRadixDigit_def split: option.splits)
  then consider "(of_char c :: nat) = 48 + d" "d < 10"
    | "(of_char c :: nat) = 87 + d" "10 \<le> d"
    | "(of_char c :: nat) = 55 + d" "10 \<le> d"
    by (auto simp: digitValue_def Let_def split: if_splits)
  then have "\<exists>up. c = hex_char (d, up)"
  proof cases
    case 1
    then have "(of_char c :: nat) = of_char (hex_char (d, False))"
      by (simp add: of_char_hex_digit)
    then show ?thesis by auto
  next
    case 2
    then have "(of_char c :: nat) = of_char (hex_char (d, False))"
      using d(2) by (simp add: of_char_hex_lower)
    then show ?thesis by auto
  next
    case 3
    then have "(of_char c :: nat) = of_char (hex_char (d, True))"
      using d(2) by (simp add: of_char_hex_upper)
    then show ?thesis by auto
  qed
  then show "c \<in> set ''0123456789abcdefABCDEF''"
    using d(2) hex_char_in_digits by blast
next
  assume "c \<in> set ''0123456789abcdefABCDEF''"
  then show "isRadixDigit 16 c"
    by (auto simp: isRadixDigit_def digitValue_def)
qed

lemma mathInt_hex:
  "\<forall>du\<in>set dus. fst du < 16
   \<Longrightarrow> mathInt 16 (map hex_char dus) = horner_sum id 16 (rev (map fst dus))"
proof (induction dus rule: rev_induct)
  case Nil
  show ?case by (simp add: mathInt_def)
next
  case (snoc du dus)
  have "digitValue (hex_char (fst du, snd du)) = Some (fst du)"
    using snoc.prems by (intro digitValue_hex_char) simp
  with snoc show ?case by (simp add: mathInt_snoc)
qed

lemma takeWhile_hex:
  assumes "\<forall>du\<in>set dus. fst du < 16"
    and "rest = [] \<or> hd rest \<notin> set ''0123456789abcdefABCDEF''"
  shows "takeWhile (isRadixDigit 16) (map hex_char dus @ rest) = map hex_char dus"
proof -
  have "takeWhile (isRadixDigit 16) rest = []"
    using assms(2) unfolding takeWhile_eq_Nil_iff isRadixDigit_16_iff .
  moreover have "isRadixDigit 16 c" if "c \<in> set (map hex_char dus)" for c
  proof -
    from that obtain du where "du \<in> set dus" "c = hex_char (fst du, snd du)" by auto
    then show ?thesis
      using assms(1) unfolding isRadixDigit_16_iff by (simp only: hex_char_in_digits)
  qed
  then have "takeWhile (isRadixDigit 16) (map hex_char dus @ rest)
      = map hex_char dus @ takeWhile (isRadixDigit 16) rest"
    by (rule takeWhile_append2)
  ultimately show ?thesis by simp
qed

lemma parseInt_hex:
  assumes ws: "\<forall>c\<in>set ws. isStrWhiteSpaceChar c"
    and sg: "sg \<in> {[], ''+'', ''-''}"
    and x: "x \<in> {CHR ''x'', CHR ''X''}"
    and dus: "\<forall>du\<in>set dus. fst du < 16"
    and rest: "rest = [] \<or> hd rest \<notin> set ''0123456789abcdefABCDEF''"
  shows "parseInt (ws @ sg @ CHR ''0'' # x # map hex_char dus @ rest)
           = (if dus = [] then NaN
              else toNumber (if sg = ''-'' then - 1 else 1) (horner_sum id 16 (rev (map fst dus))))"
proof -
  define H where "H = map hex_char dus @ rest"
  define D where "D = CHR ''0'' # x # H"
  have "sg @ D = [] \<or> \<not> isStrWhiteSpaceChar (hd (sg @ D))"
    using sg by (auto simp: D_def isStrWhiteSpaceChar_def)
  then have trim: "trimStart (ws @ sg @ D) = sg @ D"
    using ws by (rule trimStart_spaces [rotated])
  have sign: "signOf (sg @ D) = (if sg = ''-'' then - 1 else 1)"
    using sg by (auto simp: signOf_def D_def)
  have strip: "stripSign (sg @ D) = D"
    using sg by (auto simp: stripSign_def D_def)
  have hex: "hasHexPrefix D" "drop 2 D = H"
    using x by (auto simp: hasHexPrefix_def D_def)
  have digits: "takeWhile (isRadixDigit 16) H = map hex_char dus"
    unfolding H_def using dus rest by (rule takeWhile_hex)
  have "parseInt (ws @ sg @ D)
      = (if dus = [] then NaN
         else toNumber (if sg = ''-'' then - 1 else 1) (mathInt 16 (map hex_char dus)))"
    by (simp add: parseInt_def trim sign strip hex parseDigits_def digits)
  then show ?thesis using dus by (simp add: D_def H_def mathInt_hex)
qed

section \<open>The bound checks and the required variants\<close>

lemma min_violated_None_iff:
  "min_violated opts value = None \<longleftrightarrow> (\<forall>m. min_num opts = Some m \<longrightarrow> \<not> js_lt value m)"
  by (simp add: min_violated_def split: option.split)

lemma max_violated_None_iff:
  "max_violated opts value = None \<longleftrightarrow> (\<forall>m. max_num opts = Some m \<longrightarrow> \<not> js_gt value m)"
  by (simp add: max_violated_def split: option.split)

text \<open>
  \<open>parseEnvAsString\<close> and \<open>parseEnvAsNumber\<close> pass on what the \<open>...OrNull\<close>
  variant throws or returns, except that a returned \<open>null\<close> becomes the
  must-be-defined error.
\<close>

lemma parseEnvAsString_error:
  "parseEnvAsStringOrNull env envVarName options = (lg, Inl e)
   \<Longrightarrow> parseEnvAsString env envVarName options = (lg, Inl e)"
  by (simp add: parseEnvAsString_def)

lemma parseEnvAsString_value:
  "parseEnvAsStringOrNull env envVarName options = (lg, Inr (Some v))
   \<Longrightarrow> parseEnvAsString env envVarName options = (lg, Inr v)"
  by (simp add: parseEnvAsString_def)

lemma parseEnvAsNumber_error:
  "parseEnvAsNumberOrNull env envVarName options = (lg, Inl e)
   \<Longrightarrow> parseEnvAsNumber env envVarName options = (lg, Inl e)"
  by (simp add: parseEnvAsNumber_def)

lemma parseEnvAsNumber_value:
  "parseEnvAsNumberOrNull env envVarName options = (lg, Inr (Some v))
   \<Longrightarrow> parseEnvAsNumber env envVarName options = (lg, Inr v)"
  by (simp add: parseEnvAsNumber_def)

lemma parseEnvAsNumber_null:
  "parseEnvAsNumberOrNull env envVarName options = (lg, Inr None)
   \<Longrightarrow> parseEnvAsNumber env envVarName options
       = (lg, Inl (Error (must_be_defined (show_name envVarName))))"
  by (simp add: parseEnvAsNumber_def)

section \<open>Numeric resolution\<close>

text \<open>
  Claim C1, as amended. In \<open>src/lib/envUtils.ts\<close>, when the variable is present the raw
  value is read by \<open>parseInt\<close> with no radix. For a raw value made of white space, an
  optional sign, then decimal digits and a rest that does not go on with a digit, and
  that is not \<open>0\<close> followed by \<open>x\<close> or \<open>X\<close>, the result is the Number for the base-10
  value of those digits (the longest leading numeric substring). When no digit follows
  the white space and the sign, the result is \<open>NaN\<close>. When \<open>0x\<close> or \<open>0X\<close> follows
  them, the hexadecimal digits after it are read in base 16, and with none the result is
  \<open>NaN\<close>. On \<open>NaN\<close> the resolution throws the not-a-number error, which carries the
  variable name and the raw value, and logs nothing; otherwise, when no bound is
  violated, it returns the Number read.
\<close>

theorem numeric_parse_leading_digits:
  assumes present: "env name = Some rawValue"
    and spaces: "\<forall>c\<in>set ws. isStrWhiteSpaceChar c"
    and sign: "sg \<in> {[], ''+'', ''-''}"
  shows "(rawValue = ws @ sg @ map digit_char ds @ rest
            \<and> ds \<noteq> [] \<and> (\<forall>d\<in>set ds. d < 10)
            \<and> (rest = [] \<or> hd rest \<notin> set ''0123456789'')
            \<and> \<not> (ds = [0] \<and> rest \<noteq> [] \<and> hd rest \<in> {CHR ''x'', CHR ''X''})
          \<longrightarrow> parseInt rawValue
                = toNumber (if sg = ''-'' then - 1 else 1) (horner_sum id 10 (rev ds)))
       \<and> (rawValue = ws @ sg @ rest
            \<and> (rest = [] \<or> hd rest \<notin> set ''0123456789'')
            \<and> (sg = [] \<longrightarrow> rest = []
                  \<or> (\<not> isStrWhiteSpaceChar (hd rest) \<and> hd rest \<notin> {CHR ''+'', CHR ''-''}))
          \<longrightarrow> parseInt rawValue = NaN)
       \<and> (rawValue = ws @ sg @ CHR ''0'' # x # map hex_char dus @ rest
            \<and> x \<in> {CHR ''x'', CHR ''X''} \<and> (\<forall>du\<in>set dus. fst du < 16)
            \<and> (rest = [] \<or> hd rest \<notin> set ''0123456789abcdefABCDEF'')
          \<longrightarrow> parseInt rawValue
                = (if dus = [] then NaN
                   else toNumber (if sg = ''-'' then - 1 else 1)
                          (horner_sum id 16 (rev (map fst dus)))))
       \<and> (parseInt rawValue = NaN \<longrightarrow>
            parseEnvAsNumberOrNull env (Some name) options
              = ([], Inl (Error (not_a_number name rawValue)))
          \<and> parseEnvAsNumber env (Some name) options
              = ([], Inl (Error (not_a_number name rawValue))))
       \<and> (parseInt rawValue \<noteq> NaN
            \<and> Option.bind options (\<lambda>opts. min_violated opts (parseInt rawValue)) = None
            \<and> Option.bind options (\<lambda>opts. max_violated opts (parseInt rawValue)) = None
          \<longrightarrow> parseEnvAsNumberOrNull env (Some name) options
                = ([], Inr (Some (parseInt rawValue)))
            \<and> parseEnvAsNumber env (Some name) options = ([], Inr (parseInt rawValue)))"
proof (intro conjI impI)
  assume "rawValue = ws @ sg @ map digit_char ds @ rest
            \<and> ds \<noteq> [] \<and> (\<forall>d\<in>set ds. d < 10)
            \<and> (rest = [] \<or> hd rest \<notin> set ''0123456789'')
            \<and> \<not> (ds = [0] \<and> rest \<noteq> [] \<and> hd rest \<in> {CHR ''x'', CHR ''X''})"
  then have raw: "rawValue = ws @ sg @ map digit_char ds @ rest"
    and digits: "ds \<noteq> []" "\<forall>d\<in>set ds. d < 10"
    and longest: "rest = [] \<or> hd rest \<notin> set ''0123456789''"
    and no_prefix: "\<not> (ds = [0] \<and> rest \<noteq> [] \<and> hd rest \<in> {CHR ''x'', CHR ''X''})"
    by blast+
  show "parseInt rawValue
      = toNumber (if sg = ''-'' then - 1 else 1) (horner_sum id 10 (rev ds))"
    unfolding raw using spaces sign digits longest no_prefix by (rule parseInt_decimal)
next
  assume "rawValue = ws @ sg @ rest
            \<and> (rest = [] \<or> hd rest \<notin> set ''0123456789'')
            \<and> (sg = [] \<longrightarrow> rest = []
                  \<or> (\<not> isStrWhiteSpaceChar (hd rest) \<and> hd rest \<notin> {CHR ''+'', CHR ''-''}))"
  then have raw: "rawValue = ws @ sg @ rest"
    and no_digit: "rest = [] \<or> hd rest \<notin> set ''0123456789''"
    and bare: "sg = [] \<longrightarrow> rest = []
        \<or> (\<not> isStrWhiteSpaceChar (hd rest) \<and> hd rest \<notin> {CHR ''+'', CHR ''-''})"
    by blast+
  show "parseInt rawValue = NaN"
    unfolding raw using spaces sign no_digit bare by (rule parseInt_no_digit)
next
  assume "rawValue = ws @ sg @ CHR ''0'' # x # map hex_char dus @ rest
            \<and> x \<in> {CHR ''x'', CHR ''X''} \<and> (\<forall>du\<in>set dus. fst du < 16)
            \<and> (rest = [] \<or> hd rest \<notin> set ''0123456789abcdefABCDEF'')"
  then have raw: "rawValue = ws @ sg @ CHR ''0'' # x # map hex_char dus @ rest"
    and prefix: "x \<in> {CHR ''x'', CHR ''X''}"
    and digits: "\<forall>du\<in>set dus. fst du < 16"
    and longest: "rest = [] \<or> hd rest \<notin> set ''0123456789abcdefABCDEF''"
    by blast+
  show "parseInt rawValue
      = (if dus = [] then NaN
         else toNumber (if sg = ''-'' then - 1 else 1) (horner_sum id 16 (rev (map fst dus))))"
    unfolding raw using spaces sign prefix digits longest by (rule parseInt_hex)
next
  assume nan: "parseInt rawValue = NaN"
  show "parseEnvAsNumberOrNull env (Some name) options
      = ([], Inl (Error (not_a_number name rawValue)))"
    using present nan by (simp add: parseEnvAsNumberOrNull_def)
  then show "parseEnvAsNumber env (Some name) options
      = ([], Inl (Error (not_a_number name rawValue)))"
    by (rule parseEnvAsNumber_error)
next
  assume ok: "parseInt rawValue \<noteq> NaN
            \<and> Option.bind options (\<lambda>opts. min_violated opts (parseInt rawValue)) = None
            \<and> Option.bind options (\<lambda>opts. max_violated opts (parseInt rawValue)) = None"
  then have "\<not> isNaN (parseInt rawValue)" by (cases "parseInt rawValue") simp_all
  then show returned: "parseEnvAsNumberOrNull env (Some name) options
      = ([], Inr (Some (parseInt rawValue)))"
    using present ok by (simp add: parseEnvAsNumberOrNull_def number_is_null_def)
  show "parseEnvAsNumber env (Some name) options = ([], Inr (parseInt rawValue))"
    using returned by (rule parseEnvAsNumber_value)
qed

text \<open>
  The theorem at \<open>8080abc\<close>, which resolves to 8080; at \<open>-42px\<close> behind two blanks,
  which resolves to -42; at \<open>abc\<close>, which has no leading digit; and at \<open>0x\<close>, a hex
  prefix with no digit after it.
\<close>

theorem numeric_parse_leading_digits_witness:
  "parseEnvAsNumberOrNull [''PORT'' \<mapsto> ''8080abc''] (Some ''PORT'') None
     = ([], Inr (Some (Num 8080)))
   \<and> parseEnvAsNumberOrNull [''PORT'' \<mapsto> ''  -42px''] (Some ''PORT'') None
     = ([], Inr (Some (Num (- 42))))
   \<and> parseEnvAsNumberOrNull [''PORT'' \<mapsto> ''abc''] (Some ''PORT'') None
     = ([], Inl (Error ''PORT value abc is not a number''))
   \<and> parseEnvAsNumberOrNull [''PORT'' \<mapsto> ''0x''] (Some ''PORT'') None
     = ([], Inl (Error ''PORT value 0x is not a number''))"
proof -
  have a: "parseEnvAsNumberOrNull [''PORT'' \<mapsto> ''8080abc''] (Some ''PORT'') None
     = ([], Inr (Some (Num 8080)))"
    using numeric_parse_leading_digits [of "[''PORT'' \<mapsto> ''8080abc'']" "''PORT''" "''8080abc''"
        "[]" "[]" "[8, 0, 8, 0]" "''abc''" _ _ None]
    by (simp add: digit_char_def toNumber_exact)
  have b: "parseEnvAsNumberOrNull [''PORT'' \<mapsto> ''  -42px''] (Some ''PORT'') None
     = ([], Inr (Some (Num (- 42))))"
    using numeric_parse_leading_digits [of "[''PORT'' \<mapsto> ''  -42px'']" "''PORT''" "''  -42px''"
        "''  ''" "''-''" "[4, 2]" "''px''" _ _ None]
    by (simp add: digit_char_def toNumber_exact isStrWhiteSpaceChar_def)
  have c: "parseEnvAsNumberOrNull [''PORT'' \<mapsto> ''abc''] (Some ''PORT'') None
     = ([], Inl (Error ''PORT value abc is not a number''))"
    using numeric_parse_leading_digits [of "[''PORT'' \<mapsto> ''abc'']" "''PORT''" "''abc''"
        "[]" "[]" _ "''abc''" _ _ None]
    by (simp add: isStrWhiteSpaceChar_def not_a_number_def)
  have d: "parseEnvAsNumberOrNull [''PORT'' \<mapsto> ''0x''] (Some ''PORT'') None
     = ([], Inl (Error ''PORT value 0x is not a number''))"
    using numeric_parse_leading_digits [of "[''PORT'' \<mapsto> ''0x'']" "''PORT''" "''0x''"
        "[]" "[]" _ "[]" "CHR ''x''" "[]" None]
    by (simp add: not_a_number_def)
  from a b c d show ?thesis by (intro conjI)
qed

text \<open>
  Claim C1 as stated says base 10. The raw value \<open>0x1F\<close> resolves to 31, while its
  longest leading base-10 numeric substring is \<open>0\<close>.
\<close>

theorem numeric_parse_hex_counterexample:
  "parseEnvAsNumberOrNull [''PORT'' \<mapsto> ''0x1F''] (Some ''PORT'') None = ([], Inr (Some (Num 31)))
   \<and> spec_parseBase10 ''0x1F'' = Num 0
   \<and> parseEnvAsNumberOrNull [''PORT'' \<mapsto> ''0x1F''] (Some ''PORT'') None
       \<noteq> ([], Inr (Some (spec_parseBase10 ''0x1F'')))"
  by (simp add: resolver_defs parseInt_eval spec_parseBase10_def)

text \<open>
  Claim C6. For a present raw value that \<open>parseInt\<close> reads as a Number \<open>value\<close> other
  than \<open>NaN\<close>: when a minimum is configured and \<open>value\<close> is below it, the resolution
  throws the at-least error with the name, the raw value and the minimum; otherwise,
  when a maximum is configured and \<open>value\<close> is above it, the no-greater-than error with
  the name, the raw value and the maximum; otherwise \<open>value\<close> is returned. Nothing is
  logged.
\<close>

theorem bounds_checked_in_order:
  assumes "env name = Some rawValue" and "parseInt rawValue = value" and "value \<noteq> NaN"
  shows "(min_num opts = Some lo \<and> js_lt value lo \<longrightarrow>
            parseEnvAsNumberOrNull env (Some name) (Some opts)
              = ([], Inl (Error (must_be_at_least name rawValue lo))))
       \<and> (min_violated opts value = None \<and> max_num opts = Some hi \<and> js_gt value hi \<longrightarrow>
            parseEnvAsNumberOrNull env (Some name) (Some opts)
              = ([], Inl (Error (must_be_no_greater name rawValue hi))))
       \<and> (min_violated opts value = None \<and> max_violated opts value = None \<longrightarrow>
            parseEnvAsNumberOrNull env (Some name) (Some opts) = ([], Inr (Some value)))
       \<and> parseEnvAsNumberOrNull env (Some name) None = ([], Inr (Some value))"
proof -
  have "\<not> isNaN value" using assms(3) by (cases "value") simp_all
  then show ?thesis
    using assms(1,2)
    by (simp add: parseEnvAsNumberOrNull_def number_is_null_def min_violated_def
        max_violated_def)
qed

text \<open>
  \<open>PORT\<close> set to 99999 with the maximum 65535, to 0 with the minimum 1, to 3000
  within both bounds, and to \<open>2^53 + 1\<close>, which \<open>parseInt\<close> rounds to \<open>2^53\<close>, with
  the maximum \<open>2^53\<close>.
\<close>

theorem bounds_checked_in_order_witness:
  "parseEnvAsNumberOrNull [''PORT'' \<mapsto> ''99999''] (Some ''PORT'')
       (Some \<lparr>defaultValue_num = Undefined, max_num = Some (Num 65535), min_num = None\<rparr>)
     = ([], Inl (Error ''PORT value 99999 must be no greater than 65535''))
   \<and> parseEnvAsNumberOrNull [''PORT'' \<mapsto> ''0''] (Some ''PORT'')
       (Some \<lparr>defaultValue_num = Val (Num 8080), max_num = Some (Num 65535), min_num = Some (Num 1)\<rparr>)
     = ([], Inl (Error ''PORT value 0 must be at least 1''))
   \<and> parseEnvAsNumberOrNull [''PORT'' \<mapsto> ''3000''] (Some ''PORT'')
       (Some \<lparr>defaultValue_num = Val (Num 8080), max_num = Some (Num 65535), min_num = Some (Num 1)\<rparr>)
     = ([], Inr (Some (Num 3000)))
   \<and> parseEnvAsNumberOrNull [''PORT'' \<mapsto> ''9007199254740993''] (Some ''PORT'')
       (Some \<lparr>defaultValue_num = Undefined, max_num = Some (Num 9007199254740992), min_num = None\<rparr>)
     = ([], Inr (Some (Num 9007199254740992)))"
proof -
  have big: "parseInt ''9007199254740993'' = Num 9007199254740992"
    by (simp add: parseInt_def trimStart_def signOf_def stripSign_def hasHexPrefix_def
        parseDigits_def isRadixDigit_def digitValue_def mathInt_def isStrWhiteSpaceChar_def
        toNumber_tie_down)
  show ?thesis
    using bounds_checked_in_order [of "[''PORT'' \<mapsto> ''99999'']" "''PORT''" "''99999''"
        "Num 99999"
        "\<lparr>defaultValue_num = Undefined, max_num = Some (Num 65535), min_num = None\<rparr>" _
        "Num 65535"]
      bounds_checked_in_order [of "[''PORT'' \<mapsto> ''0'']" "''PORT''" "''0''" "Num 0"
        "\<lparr>defaultValue_num = Val (Num 8080), max_num = Some (Num 65535), min_num = Some (Num 1)\<rparr>"
        "Num 1"]
      bounds_checked_in_order [of "[''PORT'' \<mapsto> ''3000'']" "''PORT''" "''3000''" "Num 3000"
        "\<lparr>defaultValue_num = Val (Num 8080), max_num = Some (Num 65535), min_num = Some (Num 1)\<rparr>"]
      bounds_checked_in_order [of "[''PORT'' \<mapsto> ''9007199254740993'']" "''PORT''"
        "''9007199254740993''" "Num 9007199254740992"
        "\<lparr>defaultValue_num = Undefined, max_num = Some (Num 9007199254740992), min_num = None\<rparr>"]
      big
    by (simp add: parseInt_eval min_violated_def max_violated_def must_be_no_greater_def
        must_be_at_least_def show_number_eval)
qed

text \<open>
  Claim C2. When the variable is absent and a default is configured, the numeric
  resolvers return the default whatever the bounds \<open>mn\<close> and \<open>mx\<close> are: the bound
  checks are not applied to it.
\<close>

theorem numeric_default_skips_bounds:
  assumes "env name = None"
  shows "parseEnvAsNumberOrNull env (Some name)
           (Some \<lparr>defaultValue_num = Val d, max_num = mx, min_num = mn\<rparr>)
           = ([(LogWarn, using_default name (show_number d))], Inr (Some d))
       \<and> parseEnvAsNumber env (Some name)
           (Some \<lparr>defaultValue_num = Val d, max_num = mx, min_num = mn\<rparr>)
           = ([(LogWarn, using_default name (show_number d))], Inr d)
       \<and> parseEnvAsNumber_part000 env (Some name)
           \<lparr>defaultValue_num = Val d, max_num = mx, min_num = mn\<rparr>
           = ([(LogWarn, using_default name (show_number d))], Inr d)"
  using assms by (simp add: resolver_defs)

text \<open>The default 5 with the minimum 10, which 5 violates, resolves to 5.\<close>

theorem numeric_default_skips_bounds_witness:
  "min_violated \<lparr>defaultValue_num = Val (Num 5), max_num = None, min_num = Some (Num 10)\<rparr> (Num 5)
     = Some (Num 10)
   \<and> parseEnvAsNumber Map.empty (Some ''PORT'')
       (Some \<lparr>defaultValue_num = Val (Num 5), max_num = None, min_num = Some (Num 10)\<rparr>)
     = ([(LogWarn, ''PORT not defined, using default 5'')], Inr (Num 5))
   \<and> parseEnvAsNumber_part000 Map.empty (Some ''PORT'')
       \<lparr>defaultValue_num = Val (Num 5), max_num = None, min_num = Some (Num 10)\<rparr>
     = ([(LogWarn, ''PORT not defined, using default 5'')], Inr (Num 5))"
  using numeric_default_skips_bounds [of Map.empty "''PORT''" "Num 5" None "Some (Num 10)"]
  by (simp add: min_violated_def using_default_def show_number_eval)

text \<open>
  Claim C8. The two numeric resolvers differ where \<open>parseInt\<close> gives \<open>NaN\<close>: the one
  of \<open>src/lib/envUtils.ts\<close> throws the not-a-number error, the one of
  \<open>src/unnamed/part_000\<close> returns \<open>NaN\<close>.
\<close>

theorem numeric_resolvers_diverge_on_NaN:
  assumes "env name = Some rawValue" and "parseInt rawValue = NaN"
  shows "parseEnvAsNumber env (Some name) (Some opts)
           = ([], Inl (Error (not_a_number name rawValue)))
       \<and> parseEnvAsNumber_part000 env (Some name) opts = ([], Inr NaN)
       \<and> parseEnvAsNumber env (Some name) (Some opts)
           \<noteq> parseEnvAsNumber_part000 env (Some name) opts"
  using assms
  by (simp add: parseEnvAsNumber_def parseEnvAsNumberOrNull_def parseEnvAsNumber_part000_def
      number_is_null_def min_violated_def max_violated_def split: option.split)

text \<open>\<open>PORT\<close> set to \<open>abc\<close>.\<close>

theorem numeric_resolvers_diverge_on_NaN_witness:
  "parseEnvAsNumber [''PORT'' \<mapsto> ''abc''] (Some ''PORT'')
       (Some \<lparr>defaultValue_num = Val (Num 8080), max_num = Some (Num 65535), min_num = Some (Num 1)\<rparr>)
     = ([], Inl (Error ''PORT value abc is not a number''))
   \<and> parseEnvAsNumber_part000 [''PORT'' \<mapsto> ''abc''] (Some ''PORT'')
       \<lparr>defaultValue_num = Val (Num 8080), max_num = Some (Num 65535), min_num = Some (Num 1)\<rparr>
     = ([], Inr NaN)"
  using numeric_resolvers_diverge_on_NaN [of "[''PORT'' \<mapsto> ''abc'']" "''PORT''" "''abc''"
      "\<lparr>defaultValue_num = Val (Num 8080), max_num = Some (Num 65535), min_num = Some (Num 1)\<rparr>"]
  by (simp add: parseInt_eval not_a_number_def)

section \<open>Defaults and missing variables\<close>

text \<open>
  Claim C3. When the variable is absent and a default value is configured, each resolver
  (string or numeric) returns exactly that default, and logs exactly one entry: the
  warning that the default is used, with the variable name and the default.
\<close>

theorem default_used_once:
  assumes "env name = None"
  shows "(string_default sopts = Val ds \<longrightarrow>
            parseEnvAsStringOrNull env (Some name) sopts
              = ([(LogWarn, using_default name ds)], Inr (Some ds))
          \<and> parseEnvAsString env (Some name) sopts
              = ([(LogWarn, using_default name ds)], Inr ds)
          \<and> parseEnvAsString_part000 env (Some name) sopts
              = ([(LogWarn, using_default name ds)], Inr ds))
       \<and> (number_default nopts = Val dn \<longrightarrow>
            parseEnvAsNumberOrNull env (Some name) nopts
              = ([(LogWarn, using_default name (show_number dn))], Inr (Some dn))
          \<and> parseEnvAsNumber env (Some name) nopts
              = ([(LogWarn, using_default name (show_number dn))], Inr dn))
       \<and> (defaultValue_num popts = Val dn \<longrightarrow>
            parseEnvAsNumber_part000 env (Some name) popts
              = ([(LogWarn, using_default name (show_number dn))], Inr dn))"
  using assms
  by (simp add: parseEnvAsStringOrNull_def parseEnvAsString_def parseEnvAsNumberOrNull_def
      parseEnvAsNumber_def parseEnvAsString_part000_def parseEnvAsNumber_part000_def
      handleDefault_def)

text \<open>The defaults of \<open>SERVER_HOST\<close> and \<open>PORT\<close> in an empty environment.\<close>

theorem default_used_once_witness:
  "parseEnvAsString Map.empty (Some ''SERVER_HOST'')
       (Some \<lparr>defaultValue = Val ''localhost'', allowed = None\<rparr>)
     = ([(LogWarn, ''SERVER_HOST not defined, using default localhost'')], Inr ''localhost'')
   \<and> parseEnvAsNumber Map.empty (Some ''PORT'')
       (Some \<lparr>defaultValue_num = Val (Num 8080), max_num = Some (Num 65535), min_num = Some (Num 1)\<rparr>)
     = ([(LogWarn, ''PORT not defined, using default 8080'')], Inr (Num 8080))
   \<and> parseEnvAsNumber_part000 Map.empty (Some ''PORT'')
       \<lparr>defaultValue_num = Val (Num 8080), max_num = Some (Num 65535), min_num = Some (Num 1)\<rparr>
     = ([(LogWarn, ''PORT not defined, using default 8080'')], Inr (Num 8080))"
  using default_used_once [of Map.empty "''SERVER_HOST''"
      "Some \<lparr>defaultValue = Val ''localhost'', allowed = None\<rparr>" "''localhost''"]
    default_used_once [of Map.empty "''PORT''" _ _
      "Some \<lparr>defaultValue_num = Val (Num 8080), max_num = Some (Num 65535), min_num = Some (Num 1)\<rparr>"
      "Num 8080"
      "\<lparr>defaultValue_num = Val (Num 8080), max_num = Some (Num 65535), min_num = Some (Num 1)\<rparr>"]
  by (simp add: string_default_def number_default_def using_default_def show_number_eval)

text \<open>
  Claim C4. When the variable is absent and no default is configured (no options, or
  options with no \<open>defaultValue\<close>), each resolver throws the must-be-defined error,
  which names the variable, and logs nothing.
\<close>

theorem missing_required_variable:
  assumes "env name = None"
  shows "(string_default sopts = Undefined \<longrightarrow>
            parseEnvAsStringOrNull env (Some name) sopts = ([], Inl (Error (must_be_defined name)))
          \<and> parseEnvAsString env (Some name) sopts = ([], Inl (Error (must_be_defined name)))
          \<and> parseEnvAsString_part000 env (Some name) sopts
              = ([], Inl (Error (must_be_defined name))))
       \<and> (number_default nopts = Undefined \<longrightarrow>
            parseEnvAsNumberOrNull env (Some name) nopts = ([], Inl (Error (must_be_defined name)))
          \<and> parseEnvAsNumber env (Some name) nopts = ([], Inl (Error (must_be_defined name))))
       \<and> (defaultValue_num popts = Undefined \<longrightarrow>
            parseEnvAsNumber_part000 env (Some name) popts
              = ([], Inl (Error (must_be_defined name))))"
  using assms
  by (simp add: parseEnvAsStringOrNull_def parseEnvAsString_def parseEnvAsNumberOrNull_def
      parseEnvAsNumber_def parseEnvAsString_part000_def parseEnvAsNumber_part000_def
      handleDefault_def)

text \<open>\<open>SESSION_SECRET\<close> with no options and \<open>PORT\<close> with a bound only, both absent.\<close>

theorem missing_required_variable_witness:
  "parseEnvAsString Map.empty (Some ''SESSION_SECRET'') None
     = ([], Inl (Error ''SESSION_SECRET must be defined''))
   \<and> parseEnvAsNumber Map.empty (Some ''PORT'')
       (Some \<lparr>defaultValue_num = Undefined, max_num = Some (Num 65535), min_num = None\<rparr>)
     = ([], Inl (Error ''PORT must be defined''))
   \<and> parseEnvAsNumber_part000 Map.empty (Some ''PORT'')
       \<lparr>defaultValue_num = Undefined, max_num = Some (Num 65535), min_num = None\<rparr>
     = ([], Inl (Error ''PORT must be defined''))"
  using missing_required_variable [of Map.empty "''SESSION_SECRET''" None]
    missing_required_variable [of Map.empty "''PORT''" _
      "Some \<lparr>defaultValue_num = Undefined, max_num = Some (Num 65535), min_num = None\<rparr>"
      "\<lparr>defaultValue_num = Undefined, max_num = Some (Num 65535), min_num = None\<rparr>"]
  by (simp add: string_default_def number_default_def must_be_defined_def)

text \<open>
  Claim C10. When the variable is absent and the options hold both a default and an
  allowed set, the string resolvers return the default even when it is not in the set,
  and log only the default-used warning.
\<close>

theorem string_default_skips_allowed_set:
  assumes "env name = None" and "defaultValue opts = Val d" and "allowed opts = Some A"
    and "d \<notin> A"
  shows "parseEnvAsStringOrNull env (Some name) (Some opts)
           = ([(LogWarn, using_default name d)], Inr (Some d))
       \<and> parseEnvAsString env (Some name) (Some opts)
           = ([(LogWarn, using_default name d)], Inr d)
       \<and> parseEnvAsString_part000 env (Some name) (Some opts)
           = ([(LogWarn, using_default name d)], Inr d)"
  using assms
  by (simp add: parseEnvAsStringOrNull_def parseEnvAsString_def parseEnvAsString_part000_def
      string_default_def)

text \<open>The default \<open>staging\<close>, which the allowed set of \<open>NODE_ENV\<close> does not hold.\<close>

theorem string_default_skips_allowed_set_witness:
  "''staging'' \<notin> {''development'', ''production'', ''test''}
   \<and> parseEnvAsString Map.empty (Some ''NODE_ENV'')
       (Some \<lparr>defaultValue = Val ''staging'',
               allowed = Some {''development'', ''production'', ''test''}\<rparr>)
     = ([(LogWarn, ''NODE_ENV not defined, using default staging'')], Inr ''staging'')
   \<and> parseEnvAsString_part000 Map.empty (Some ''NODE_ENV'')
       (Some \<lparr>defaultValue = Val ''staging'',
               allowed = Some {''development'', ''production'', ''test''}\<rparr>)
     = ([(LogWarn, ''NODE_ENV not defined, using default staging'')], Inr ''staging'')"
  using string_default_skips_allowed_set [of Map.empty "''NODE_ENV''"
      "\<lparr>defaultValue = Val ''staging'',
        allowed = Some {''development'', ''production'', ''test''}\<rparr>" "''staging''"
      "{''development'', ''production'', ''test''}"]
  by (simp add: using_default_def)

section \<open>Allowed sets and error messages\<close>

text \<open>
  Claim C5. With an allowed set configured, a present value outside the set makes the
  string resolvers log exactly one unsupported-value error entry and throw the
  unsupported-value error; a present value inside the set is returned as it is, and
  nothing is logged.
\<close>

theorem allowed_set_checked:
  assumes "env name = Some valueStr" and "allowed opts = Some A"
  shows "(valueStr \<notin> A \<longrightarrow>
            parseEnvAsStringOrNull env (Some name) (Some opts)
              = ([(LogError, unsupported_value valueStr)], Inl (Error (unsupported_value valueStr)))
          \<and> parseEnvAsString env (Some name) (Some opts)
              = ([(LogError, unsupported_value valueStr)], Inl (Error (unsupported_value valueStr)))
          \<and> parseEnvAsString_part000 env (Some name) (Some opts)
              = ([(LogError, unsupported_value valueStr)], Inl (Error (unsupported_value valueStr))))
       \<and> (valueStr \<in> A \<longrightarrow>
            parseEnvAsStringOrNull env (Some name) (Some opts) = ([], Inr (Some valueStr))
          \<and> parseEnvAsString env (Some name) (Some opts) = ([], Inr valueStr)
          \<and> parseEnvAsString_part000 env (Some name) (Some opts) = ([], Inr valueStr))"
  using assms
  by (simp add: parseEnvAsStringOrNull_def parseEnvAsString_def parseEnvAsString_part000_def)

text \<open>
  \<open>staging\<close> is outside the set of \<open>NODE_ENV\<close>; a value with a leading blank and a
  capital letter that is in the set comes back untouched.
\<close>

theorem allowed_set_checked_witness:
  "parseEnvAsString [''NODE_ENV'' \<mapsto> ''staging''] (Some ''NODE_ENV'')
       (Some \<lparr>defaultValue = Undefined, allowed = Some {''development'', ''production'', ''test''}\<rparr>)
     = ([(LogError, ''unsupported NODE_ENV value staging'')],
        Inl (Error ''unsupported NODE_ENV value staging''))
   \<and> parseEnvAsString [''NODE_ENV'' \<mapsto> '' Test''] (Some ''NODE_ENV'')
       (Some \<lparr>defaultValue = Undefined, allowed = Some {''development'', ''production'', '' Test''}\<rparr>)
     = ([], Inr '' Test'')"
  using allowed_set_checked [of "[''NODE_ENV'' \<mapsto> ''staging'']" "''NODE_ENV''" "''staging''"
      "\<lparr>defaultValue = Undefined, allowed = Some {''development'', ''production'', ''test''}\<rparr>"
      "{''development'', ''production'', ''test''}"]
    allowed_set_checked [of "[''NODE_ENV'' \<mapsto> '' Test'']" "''NODE_ENV''" "'' Test''"
      "\<lparr>defaultValue = Undefined, allowed = Some {''development'', ''production'', '' Test''}\<rparr>"
      "{''development'', ''production'', '' Test''}"]
  by (simp add: unsupported_value_def)

text \<open>
  Claim C7 says that every error names the offending variable. On the allowed-set path
  the message is built from the literal \<open>NODE_ENV\<close>, not from \<open>envVarName\<close>: for the
  variable \<open>LOG_LEVEL\<close> the error does not mention \<open>LOG_LEVEL\<close>.
\<close>

theorem unsupported_value_names_NODE_ENV:
  "parseEnvAsString [''LOG_LEVEL'' \<mapsto> ''verbose''] (Some ''LOG_LEVEL'')
       (Some \<lparr>defaultValue = Undefined, allowed = Some {''info'', ''debug''}\<rparr>)
     = ([(LogError, ''unsupported NODE_ENV value verbose'')],
        Inl (Error ''unsupported NODE_ENV value verbose''))
   \<and> \<not> sublist ''LOG_LEVEL'' ''unsupported NODE_ENV value verbose''"
  by (simp add: parseEnvAsString_def parseEnvAsStringOrNull_def unsupported_value_def
      sublist_Cons_right)

end
